theory Spec2Isabelle
  imports Main "HOL-Library.Sublist"
begin

section \<open>The Genie wrapper: backend selection, path checks, command construction\<close>

text \<open>
  The wrapper is glue around an external tool. Its own logic is the backend selector of
  \<^verbatim>\<open>api.py\<close> and, in \<^verbatim>\<open>core/docker_runner.py\<close>, the path check, the construction of
  the \<^verbatim>\<open>docker run\<close> command line and the failure policy on the finished process.
  Everything the code obtains from outside (the file system, the external process, the
  native backend, whose module is not part of the sources at hand) is a field of an
  environment record, and all theorems hold for every environment.
\<close>

subsection \<open>Paths\<close>

text \<open>
  A resolved \<^verbatim>\<open>pathlib.Path\<close> on a POSIX system is absolute: it is modelled by the list
  of its components below the root, the root itself being the empty list.
  \<^verbatim>\<open>Path('/').parent\<close> is \<^verbatim>\<open>/\<close> again and \<^verbatim>\<open>Path('/').name\<close> is the empty string.
\<close>

type_synonym path = "string list"

definition parent :: "path \<Rightarrow> path" where
  "parent p = butlast p"

definition name :: "path \<Rightarrow> string" where
  "name p = (if p = [] then [] else last p)"

fun join_with :: "string \<Rightarrow> string list \<Rightarrow> string" where
  "join_with sep [] = []"
| "join_with sep [x] = x"
| "join_with sep (x # y # ys) = x @ sep @ join_with sep (y # ys)"

text \<open>\<^verbatim>\<open>str(path)\<close>, as the f-string \<^verbatim>\<open>f"{bind_dir}:/work"\<close> uses it.\<close>

definition path_str :: "path \<Rightarrow> string" where
  "path_str p = ''/'' @ join_with ''/'' p"

subsection \<open>Errors, the outside world and the trace of effects\<close>

datatype error =
    ValueError string
  | RuntimeError string
  | IndexError
  | OSError

text \<open>
  What \<^verbatim>\<open>subprocess.run(cmd, capture_output=True, text=True, check=True)\<close> can do: the
  process runs to its end with an exit status and the two captured streams (a non-zero
  status is what \<^verbatim>\<open>check=True\<close> turns into \<^verbatim>\<open>CalledProcessError\<close>), or the call raises
  something else before there is any exit status (the executable is missing, say).
\<close>

datatype completed =
    Exited int string string
  | Not_Started

text \<open>
  The effects of a call, in the order they happen. \<open>Run\<close> is the one event that starts an
  external process. The two \<open>Native\<close> events record a call of the native backend's method
  with the arguments it was given.
\<close>

datatype event =
    Mkdir path
  | Run "string list"
  | Print string
  | NativeCompress string string "string option" bool
  | NativeDecompress string string "string option"

record env =
  resolve :: "string \<Rightarrow> path"
  mkdir_ok :: "path \<Rightarrow> bool"
  subprocess_run :: "string list \<Rightarrow> completed"
  native_compress :: "string \<Rightarrow> string \<Rightarrow> string option \<Rightarrow> bool \<Rightarrow> error + string"
  native_decompress :: "string \<Rightarrow> string \<Rightarrow> string option \<Rightarrow> error + string"

text \<open>
  \<^item> \<open>resolve e p\<close> is \<^verbatim>\<open>Path(p).resolve()\<close>: it depends on the working directory and on
    the symbolic links of the file system.
  \<^item> \<open>mkdir_ok e d\<close> says whether \<^verbatim>\<open>d.mkdir(parents=True, exist_ok=True)\<close> succeeds.
  \<^item> \<open>subprocess_run e cmd\<close> is the outcome of the external process.
  \<^item> \<open>native_compress e\<close> and \<open>native_decompress e\<close> are the results of the two methods of
    \<^verbatim>\<open>NativeGenieRunner\<close>.
\<close>

type_synonym 'a result = "(error + 'a) \<times> event list"

subsection \<open>Python's truth test and indexing\<close>

text \<open>\<^verbatim>\<open>if p\<close> on an optional string: \<^verbatim>\<open>None\<close> and the empty string are false.\<close>

fun truthy :: "string option \<Rightarrow> bool" where
  "truthy None = False"
| "truthy (Some s) = (s \<noteq> [])"

text \<open>\<^verbatim>\<open>xs[i]\<close> for a non-negative literal index: out of range it raises \<^verbatim>\<open>IndexError\<close>.\<close>

definition index :: "'a list \<Rightarrow> nat \<Rightarrow> error + 'a" where
  "index xs i = (if i < length xs then Inr (xs ! i) else Inl IndexError)"

text \<open>\<^verbatim>\<open>needle in haystack\<close> on strings.\<close>

fun str_contains :: "string \<Rightarrow> string \<Rightarrow> bool" where
  "str_contains needle [] = (needle = [])"
| "str_contains needle (c # cs) = (prefix needle (c # cs) \<or> str_contains needle cs)"

subsection \<open>\<^verbatim>\<open>DockerGenieRunner\<close>\<close>

text \<open>
  The runner's only field is the image name, \<^verbatim>\<open>muefab/genie:latest\<close> by default; the
  methods take it as their second argument. Private names lose their leading underscore,
  and the methods \<^verbatim>\<open>compress\<close> and \<^verbatim>\<open>decompress\<close> of the class are \<open>docker_compress\<close> and
  \<open>docker_decompress\<close>, the plain names being those of the public functions.
\<close>

definition default_image :: string where
  "default_image = ''muefab/genie:latest''"

definition run_command :: "env \<Rightarrow> string list \<Rightarrow> string result" where
  "run_command e cmd =
     (case subprocess_run e cmd of
        Not_Started \<Rightarrow> (Inl OSError, [Run cmd])
      | Exited returncode stdout stderr \<Rightarrow>
          if returncode \<noteq> 0 then
            (Inl (RuntimeError (''Genie Docker failed:\<newline>'' @ stderr)),
             [Run cmd, Print (''[Genie Docker] Error: '' @ stderr)])
          else if stderr \<noteq> [] \<and> str_contains ''ERROR'' stderr then
            (Inl (RuntimeError (''Genie Docker failed:\<newline>'' @ stderr)),
             [Run cmd, Print (''[Genie Docker] Error: '' @ stderr)])
          else
            (Inr stdout, [Run cmd, Print (''[Genie Docker] Output: '' @ stdout)]))"

text \<open>
  \<^verbatim>\<open>_resolve_paths(*paths)\<close>. The set comprehension \<^verbatim>\<open>{p.parent for p in resolved}\<close> is the
  list of parents without duplicates; \<^verbatim>\<open>pop()\<close> on a set of one element returns it.
\<close>

definition resolve_paths :: "env \<Rightarrow> string option list \<Rightarrow> error + (path list \<times> path)" where
  "resolve_paths e paths =
     (let resolved = map (\<lambda>p. resolve e (the p)) (filter truthy paths);
          parent_dirs = remdups (map parent resolved)
      in if length parent_dirs \<noteq> 1
         then Inl (ValueError ''All files must be in the same directory for Docker binding.'')
         else Inr (resolved, hd parent_dirs))"

definition docker_compress ::
    "env \<Rightarrow> string \<Rightarrow> string \<Rightarrow> string \<Rightarrow> string option \<Rightarrow> bool \<Rightarrow> string result" where
  "docker_compress e img input_file output_file reference low_latency =
     (case resolve_paths e [Some input_file, Some output_file, reference] of
        Inl err \<Rightarrow> (Inl err, [])
      | Inr (paths, bind_dir) \<Rightarrow>
     (case index paths 0 of Inl err \<Rightarrow> (Inl err, []) | Inr input_path \<Rightarrow>
     (case index paths 1 of Inl err \<Rightarrow> (Inl err, []) | Inr output_path \<Rightarrow>
     (case (if truthy reference then map_sum id Some (index paths 2) else Inr None) of
        Inl err \<Rightarrow> (Inl err, [])
      | Inr ref_path \<Rightarrow>
          if \<not> mkdir_ok e (parent output_path)
          then (Inl OSError, [Mkdir (parent output_path)])
          else
            let cmd = [''docker'', ''run'', ''--rm'',
                       ''-v'', path_str bind_dir @ '':/work'',
                       img,
                       ''run'',
                       ''-i'', ''/work/'' @ name input_path,
                       ''-o'', ''/work/'' @ name output_path,
                       ''--qv'', ''none'',
                       ''-f''];
                cmd = (if low_latency then cmd @ [''--low-latency''] else cmd);
                cmd = (case ref_path of
                         Some rp \<Rightarrow> cmd @ [''-r'', ''/work/'' @ name rp]
                       | None \<Rightarrow> cmd);
                (res, evs) = run_command e cmd
            in (res, Mkdir (parent output_path) # evs)))))"

definition docker_decompress ::
    "env \<Rightarrow> string \<Rightarrow> string \<Rightarrow> string \<Rightarrow> string option \<Rightarrow> string result" where
  "docker_decompress e img input_file output_file reference =
     (case resolve_paths e [Some input_file, Some output_file, reference] of
        Inl err \<Rightarrow> (Inl err, [])
      | Inr (paths, bind_dir) \<Rightarrow>
     (case index paths 0 of Inl err \<Rightarrow> (Inl err, []) | Inr input_path \<Rightarrow>
     (case index paths 1 of Inl err \<Rightarrow> (Inl err, []) | Inr output_path \<Rightarrow>
     (case (if truthy reference then map_sum id Some (index paths 2) else Inr None) of
        Inl err \<Rightarrow> (Inl err, [])
      | Inr ref_path \<Rightarrow>
          if \<not> mkdir_ok e (parent output_path)
          then (Inl OSError, [Mkdir (parent output_path)])
          else
            let cmd = [''docker'', ''run'', ''--rm'',
                       ''-v'', path_str bind_dir @ '':/work'',
                       img,
                       ''run'',
                       ''-i'', ''/work/'' @ name input_path,
                       ''-o'', ''/work/'' @ name output_path,
                       ''-f''];
                cmd = (case ref_path of
                         Some rp \<Rightarrow> cmd @ [''-r'', ''/work/'' @ name rp]
                       | None \<Rightarrow> cmd);
                (res, evs) = run_command e cmd
            in (res, Mkdir (parent output_path) # evs)))))"

subsection \<open>The public functions of \<^verbatim>\<open>api.py\<close>\<close>

definition DEFAULT_MODE :: string where
  "DEFAULT_MODE = ''docker''"

datatype runner = NativeGenieRunner | DockerGenieRunner string

definition get_runner :: "string \<Rightarrow> error + runner" where
  "get_runner mode =
     (if mode = ''native'' then Inr NativeGenieRunner
      else if mode = ''docker'' then Inr (DockerGenieRunner default_image)
      else Inl (ValueError (''Unknown mode '' @ [CHR 0x27] @ mode @ [CHR 0x27]
                  @ ''. Must be 'native' or 'docker'.'')))"

text \<open>The method call \<^verbatim>\<open>runner.compress(...)\<close>, dispatched on the runner's class.\<close>

fun runner_compress ::
    "env \<Rightarrow> runner \<Rightarrow> string \<Rightarrow> string \<Rightarrow> string option \<Rightarrow> bool \<Rightarrow> string result" where
  "runner_compress e NativeGenieRunner i out r ll =
     (native_compress e i out r ll, [NativeCompress i out r ll])"
| "runner_compress e (DockerGenieRunner img) i out r ll =
     docker_compress e img i out r ll"

fun runner_decompress ::
    "env \<Rightarrow> runner \<Rightarrow> string \<Rightarrow> string \<Rightarrow> string option \<Rightarrow> string result" where
  "runner_decompress e NativeGenieRunner i out r =
     (native_decompress e i out r, [NativeDecompress i out r])"
| "runner_decompress e (DockerGenieRunner img) i out r =
     docker_decompress e img i out r"

text \<open>
  A parameter with a default value is an optional argument: \<open>None\<close> is the call that
  leaves it out. (\<open>reference_path\<close> defaults to \<^verbatim>\<open>None\<close>, which is its \<open>None\<close> here too.)
\<close>

definition compress ::
    "env \<Rightarrow> string \<Rightarrow> string \<Rightarrow> string option \<Rightarrow> string option \<Rightarrow> bool option \<Rightarrow> string result" where
  "compress e input_path output_path reference_path mode low_latency =
     (let mode = (case mode of None \<Rightarrow> DEFAULT_MODE | Some m \<Rightarrow> m);
          low_latency = (case low_latency of None \<Rightarrow> False | Some b \<Rightarrow> b)
      in case get_runner mode of
           Inl err \<Rightarrow> (Inl err, [])
         | Inr runner \<Rightarrow>
             runner_compress e runner input_path output_path reference_path low_latency)"

definition decompress ::
    "env \<Rightarrow> string \<Rightarrow> string \<Rightarrow> string option \<Rightarrow> string option \<Rightarrow> string result" where
  "decompress e input_path output_path reference_path mode =
     (let mode = (case mode of None \<Rightarrow> DEFAULT_MODE | Some m \<Rightarrow> m)
      in case get_runner mode of
           Inl err \<Rightarrow> (Inl err, [])
         | Inr runner \<Rightarrow> runner_decompress e runner input_path output_path reference_path)"

subsection \<open>A file system without symbolic links, for concrete runs\<close>

text \<open>
  On a file system without symbolic links \<^verbatim>\<open>Path(p).resolve()\<close> is lexical: a relative
  path starts from the working directory, empty components and \<^verbatim>\<open>.\<close> are dropped and
  \<^verbatim>\<open>..\<close> steps up (staying at the root when there is nothing above).
\<close>

fun split_on :: "char \<Rightarrow> string \<Rightarrow> string list" where
  "split_on sep [] = [[]]"
| "split_on sep (c # cs) =
     (if c = sep then [] # split_on sep cs
      else (case split_on sep cs of
              [] \<Rightarrow> [[c]]
            | w # ws \<Rightarrow> (c # w) # ws))"

fun normalise :: "path \<Rightarrow> string list \<Rightarrow> path" where
  "normalise acc [] = acc"
| "normalise acc (c # cs) =
     (if c = [] \<or> c = ''.'' then normalise acc cs
      else if c = ''..'' then normalise (butlast acc) cs
      else normalise (acc @ [c]) cs)"

definition resolve_lexical :: "path \<Rightarrow> string \<Rightarrow> path" where
  "resolve_lexical cwd p =
     (if p \<noteq> [] \<and> hd p = CHR ''/'' then normalise [] (split_on CHR ''/'' p)
      else normalise cwd (split_on CHR ''/'' p))"

text \<open>
  An environment with that file system and working directory \<^verbatim>\<open>/home/u\<close>, where every
  directory can be made, the external tool prints \<^verbatim>\<open>done\<close> and the native backend
  returns a fixed text.
\<close>

definition quiet_env :: env where
  "quiet_env = \<lparr> resolve = resolve_lexical [''home'', ''u''],
                 mkdir_ok = (\<lambda>d. True),
                 subprocess_run = (\<lambda>cmd. Exited 0 ''done'' []),
                 native_compress = (\<lambda>i out r ll. Inr ''native out''),
                 native_decompress = (\<lambda>i out r. Inr ''native out'') \<rparr>"

text \<open>
  The same, but the tool reports on its error stream and still exits with status 0, as
  the integration test notes it does for a missing input file.
\<close>

definition quirk_env :: env where
  "quirk_env = quiet_env \<lparr> subprocess_run :=
                 (\<lambda>cmd. Exited 0 ''log'' ''ERROR: Input file does not exist'') \<rparr>"

subsection \<open>The specification's vocabulary\<close>

text \<open>
  The paths a call provides are those that pass the truth test of \<^verbatim>\<open>_resolve_paths\<close>: a
  reference that is \<^verbatim>\<open>None\<close>, and any path that is the empty string, is not provided.
\<close>

definition provided :: "string option list \<Rightarrow> string list" where
  "provided paths = map the (filter truthy paths)"

text \<open>
  The resolved forms of the paths \<open>ps\<close> share exactly one parent directory: the set of
  their parents is a singleton.
\<close>

definition share_one_parent :: "env \<Rightarrow> string list \<Rightarrow> bool" where
  "share_one_parent e ps = (\<exists>d. (\<lambda>p. parent (resolve e p)) ` set ps = {d})"

text \<open>
  The invocations as the specification describes them: a container run with one bind
  mount of the shared directory to \<^verbatim>\<open>/work\<close>, then the image and the tool's arguments,
  every file passed as \<^verbatim>\<open>/work/<basename>\<close>.
\<close>

definition compress_invocation ::
    "env \<Rightarrow> string \<Rightarrow> string \<Rightarrow> string \<Rightarrow> string option \<Rightarrow> bool \<Rightarrow> string list" where
  "compress_invocation e img i out r ll =
     [''docker'', ''run'', ''--rm'', ''-v'', path_str (parent (resolve e out)) @ '':/work'', img,
      ''run'', ''-i'', ''/work/'' @ name (resolve e i), ''-o'', ''/work/'' @ name (resolve e out),
      ''--qv'', ''none'', ''-f'']
     @ (if ll then [''--low-latency''] else [])
     @ (if truthy r then [''-r'', ''/work/'' @ name (resolve e (the r))] else [])"

definition decompress_invocation ::
    "env \<Rightarrow> string \<Rightarrow> string \<Rightarrow> string \<Rightarrow> string option \<Rightarrow> string list" where
  "decompress_invocation e img i out r =
     [''docker'', ''run'', ''--rm'', ''-v'', path_str (parent (resolve e out)) @ '':/work'', img,
      ''run'', ''-i'', ''/work/'' @ name (resolve e i), ''-o'', ''/work/'' @ name (resolve e out),
      ''-f'']
     @ (if truthy r then [''-r'', ''/work/'' @ name (resolve e (the r))] else [])"

text \<open>
  The arguments the tool itself receives are what follows the image name, the sixth word
  of \<^verbatim>\<open>docker run --rm -v <bind> <image> ...\<close>. A flag of the tool is looked for there, so
  that an image that happens to be called like a flag is not mistaken for one.
\<close>

definition tool_args :: "string list \<Rightarrow> string list" where
  "tool_args cmd = drop 6 cmd"


section \<open>Auxiliary facts\<close>

lemma str_contains_iff: "str_contains n h \<longleftrightarrow> sublist n h"
  by (induction h) (auto simp: sublist_Cons_right)

lemma remdups_one: "length (remdups xs) = 1 \<longleftrightarrow> (\<exists>d. set xs = {d})"
proof
  assume "length (remdups xs) = 1"
  then obtain d where "remdups xs = [d]" by (cases "remdups xs") auto
  then have "set xs = {d}" by (metis set_remdups list.simps(15) empty_set)
  then show "\<exists>d. set xs = {d}" ..
next
  assume "\<exists>d. set xs = {d}"
  then obtain d where "set xs = {d}" ..
  then have "card (set xs) = 1" by simp
  then show "length (remdups xs) = 1" by (simp add: card_set)
qed

lemma hd_remdups_one:
  assumes "set xs = {d}"
  shows "hd (remdups xs) = d"
proof -
  from assms have "length (remdups xs) = 1" using remdups_one by blast
  then obtain x where x: "remdups xs = [x]" by (cases "remdups xs") auto
  then have "set xs = {x}" by (metis set_remdups list.simps(15) empty_set)
  with assms x show ?thesis by simp
qed

text \<open>The path check, in the specification's vocabulary.\<close>

lemma resolve_paths_eq:
  "resolve_paths e paths =
     (if share_one_parent e (provided paths)
      then Inr (map (resolve e) (provided paths), parent (resolve e (hd (provided paths))))
      else Inl (ValueError ''All files must be in the same directory for Docker binding.''))"
proof -
  let ?rs = "map (\<lambda>p. resolve e (the p)) (filter truthy paths)"
  have rs: "?rs = map (resolve e) (provided paths)" by (simp add: provided_def)
  have img: "set (map parent ?rs) = (\<lambda>p. parent (resolve e p)) ` set (provided paths)"
    by (auto simp: provided_def)
  show ?thesis
  proof (cases "share_one_parent e (provided paths)")
    case True
    then obtain d where d: "set (map parent ?rs) = {d}"
      unfolding share_one_parent_def img by blast
    then have len: "length (remdups (map parent ?rs)) = 1" using remdups_one by blast
    have "provided paths \<noteq> []" using d img by auto
    then have "parent (resolve e (hd (provided paths))) \<in> set (map parent ?rs)"
      unfolding img by simp
    with d have "parent (resolve e (hd (provided paths))) = d" by simp
    moreover have "hd (remdups (map parent ?rs)) = d" using d by (rule hd_remdups_one)
    ultimately show ?thesis using True len rs
      by (simp add: resolve_paths_def Let_def del: set_map map_map)
  next
    case False
    then have "\<not> (\<exists>d. set (map parent ?rs) = {d})"
      unfolding share_one_parent_def img by blast
    then have "length (remdups (map parent ?rs)) \<noteq> 1" using remdups_one by blast
    with False show ?thesis by (simp add: resolve_paths_def Let_def del: set_map map_map)
  qed
qed

lemma provided3:
  "provided [Some i, Some out, r] =
     (if i = [] then [] else [i]) @ (if out = [] then [] else [out])
     @ (if truthy r then [the r] else [])"
  by (simp add: provided_def)

text \<open>
  The two methods of the runner, branch by branch: the path check, the two index
  errors of an empty input or output, the directory, and then the process.
\<close>

lemma docker_compress_eq:
  "docker_compress e img i out r ll =
     (if \<not> share_one_parent e (provided [Some i, Some out, r])
      then (Inl (ValueError ''All files must be in the same directory for Docker binding.''), [])
      else if i = [] \<or> out = [] then (Inl IndexError, [])
      else if \<not> mkdir_ok e (parent (resolve e out))
      then (Inl OSError, [Mkdir (parent (resolve e out))])
      else (fst (run_command e (compress_invocation e img i out r ll)),
            Mkdir (parent (resolve e out))
              # snd (run_command e (compress_invocation e img i out r ll))))"
proof (cases "share_one_parent e (provided [Some i, Some out, r])")
  case False
  then show ?thesis by (simp add: docker_compress_def resolve_paths_eq)
next
  case True
  show ?thesis
  proof (cases "i = [] \<or> out = []")
    case True
    then show ?thesis
      by (auto simp: docker_compress_def resolve_paths_eq provided3 index_def)
  next
    case False
    with True have "parent (resolve e i) = parent (resolve e out)"
      by (auto simp: share_one_parent_def provided3 split: if_splits)
    with True False show ?thesis
      by (cases "truthy r")
         (simp_all add: docker_compress_def resolve_paths_eq provided3 index_def
            compress_invocation_def Let_def split: prod.splits)
  qed
qed

lemma docker_decompress_eq:
  "docker_decompress e img i out r =
     (if \<not> share_one_parent e (provided [Some i, Some out, r])
      then (Inl (ValueError ''All files must be in the same directory for Docker binding.''), [])
      else if i = [] \<or> out = [] then (Inl IndexError, [])
      else if \<not> mkdir_ok e (parent (resolve e out))
      then (Inl OSError, [Mkdir (parent (resolve e out))])
      else (fst (run_command e (decompress_invocation e img i out r)),
            Mkdir (parent (resolve e out))
              # snd (run_command e (decompress_invocation e img i out r))))"
proof (cases "share_one_parent e (provided [Some i, Some out, r])")
  case False
  then show ?thesis by (simp add: docker_decompress_def resolve_paths_eq)
next
  case True
  show ?thesis
  proof (cases "i = [] \<or> out = []")
    case True
    then show ?thesis
      by (auto simp: docker_decompress_def resolve_paths_eq provided3 index_def)
  next
    case False
    with True have "parent (resolve e i) = parent (resolve e out)"
      by (auto simp: share_one_parent_def provided3 split: if_splits)
    with True False show ?thesis
      by (cases "truthy r")
         (simp_all add: docker_decompress_def resolve_paths_eq provided3 index_def
            decompress_invocation_def Let_def split: prod.splits)
  qed
qed

lemma run_command_events: "Run c \<in> set (snd (run_command e cmd)) \<longleftrightarrow> c = cmd"
  by (auto simp: run_command_def split: completed.splits)

text \<open>A command is constructed, and then run, exactly when all the checks pass.\<close>

lemma compress_runs:
  "Run cmd \<in> set (snd (docker_compress e img i out r ll)) \<longleftrightarrow>
     share_one_parent e (provided [Some i, Some out, r]) \<and> i \<noteq> [] \<and> out \<noteq> []
     \<and> mkdir_ok e (parent (resolve e out)) \<and> cmd = compress_invocation e img i out r ll"
  by (auto simp: docker_compress_eq run_command_events)

lemma decompress_runs:
  "Run cmd \<in> set (snd (docker_decompress e img i out r)) \<longleftrightarrow>
     share_one_parent e (provided [Some i, Some out, r]) \<and> i \<noteq> [] \<and> out \<noteq> []
     \<and> mkdir_ok e (parent (resolve e out)) \<and> cmd = decompress_invocation e img i out r"
  by (auto simp: docker_decompress_eq run_command_events)

text \<open>Two concrete runs.\<close>

lemma quiet_compress:
  "docker_compress quiet_env default_image ''a/in.fastq'' ''a/out.mgb'' None False =
     (Inr ''done'',
      [Mkdir [''home'', ''u'', ''a''],
       Run [''docker'', ''run'', ''--rm'', ''-v'', ''/home/u/a:/work'', ''muefab/genie:latest'',
            ''run'', ''-i'', ''/work/in.fastq'', ''-o'', ''/work/out.mgb'',
            ''--qv'', ''none'', ''-f''],
       Print ''[Genie Docker] Output: done''])"
  by (simp add: docker_compress_def resolve_paths_def index_def run_command_def quiet_env_def
        resolve_lexical_def parent_def name_def path_str_def default_image_def Let_def)

lemma quiet_compress_ref:
  "docker_compress quiet_env default_image ''a/in.fastq'' ''a/out.mgb'' (Some ''a/ref.fa'') True =
     (Inr ''done'',
      [Mkdir [''home'', ''u'', ''a''],
       Run [''docker'', ''run'', ''--rm'', ''-v'', ''/home/u/a:/work'', ''muefab/genie:latest'',
            ''run'', ''-i'', ''/work/in.fastq'', ''-o'', ''/work/out.mgb'',
            ''--qv'', ''none'', ''-f'', ''--low-latency'', ''-r'', ''/work/ref.fa''],
       Print ''[Genie Docker] Output: done''])"
  by (simp add: docker_compress_def resolve_paths_def index_def run_command_def quiet_env_def
        resolve_lexical_def parent_def name_def path_str_def default_image_def Let_def)

lemma quiet_decompress:
  "docker_decompress quiet_env default_image ''a/out.mgb'' ''a/back.fastq'' None =
     (Inr ''done'',
      [Mkdir [''home'', ''u'', ''a''],
       Run [''docker'', ''run'', ''--rm'', ''-v'', ''/home/u/a:/work'', ''muefab/genie:latest'',
            ''run'', ''-i'', ''/work/out.mgb'', ''-o'', ''/work/back.fastq'', ''-f''],
       Print ''[Genie Docker] Output: done''])"
  by (simp add: docker_decompress_def resolve_paths_def index_def run_command_def quiet_env_def
        resolve_lexical_def parent_def name_def path_str_def default_image_def Let_def)

lemma quiet_resolve_ref:
  "resolve_paths quiet_env [Some ''a/in.fastq'', Some ''a/out.mgb'', Some ''a/ref.fa'']
     = Inr ([[''home'', ''u'', ''a'', ''in.fastq''], [''home'', ''u'', ''a'', ''out.mgb''],
             [''home'', ''u'', ''a'', ''ref.fa'']],
            [''home'', ''u'', ''a''])"
  by (simp add: resolve_paths_def quiet_env_def resolve_lexical_def parent_def)

text \<open>The two parts of an invocation: the container run up to the image, and the tool's arguments.\<close>

lemma head_compress:
  "take 6 (compress_invocation e img i out r ll) =
     [''docker'', ''run'', ''--rm'', ''-v'', path_str (parent (resolve e out)) @ '':/work'', img]"
  by (simp add: compress_invocation_def)

lemma head_decompress:
  "take 6 (decompress_invocation e img i out r) =
     [''docker'', ''run'', ''--rm'', ''-v'', path_str (parent (resolve e out)) @ '':/work'', img]"
  by (simp add: decompress_invocation_def)

lemma tool_args_compress:
  "tool_args (compress_invocation e img i out r ll) =
     [''run'', ''-i'', ''/work/'' @ name (resolve e i), ''-o'', ''/work/'' @ name (resolve e out),
      ''--qv'', ''none'', ''-f'']
     @ (if ll then [''--low-latency''] else [])
     @ (if truthy r then [''-r'', ''/work/'' @ name (resolve e (the r))] else [])"
  by (simp add: tool_args_def compress_invocation_def)

lemma tool_args_decompress:
  "tool_args (decompress_invocation e img i out r) =
     [''run'', ''-i'', ''/work/'' @ name (resolve e i), ''-o'', ''/work/'' @ name (resolve e out),
      ''-f'']
     @ (if truthy r then [''-r'', ''/work/'' @ name (resolve e (the r))] else [])"
  by (simp add: tool_args_def decompress_invocation_def)


text \<open>When all the checks pass, the command is constructed and run.\<close>

lemma runs_when_checks_pass:
  assumes "resolve_paths e [Some i, Some out, r] = Inr (paths, bind_dir)"
    and "i \<noteq> []" and "out \<noteq> []" and "mkdir_ok e bind_dir"
  shows "Run (compress_invocation e img i out r ll)
           \<in> set (snd (docker_compress e img i out r ll))
       \<and> Run (decompress_invocation e img i out r)
           \<in> set (snd (docker_decompress e img i out r))"
proof -
  from assms(1) have ok: "share_one_parent e (provided [Some i, Some out, r])"
    and bd: "bind_dir = parent (resolve e (hd (provided [Some i, Some out, r])))"
    by (auto simp: resolve_paths_eq split: if_splits)
  from ok assms(2,3) have "parent (resolve e i) = parent (resolve e out)"
    by (auto simp: share_one_parent_def provided3 split: if_splits)
  with bd assms(2) have "bind_dir = parent (resolve e out)" by (simp add: provided3)
  with ok assms(2-4) show ?thesis by (simp add: compress_runs decompress_runs)
qed

text \<open>The words of the two invocations.\<close>

lemma compress_flags:
  "sublist [''--qv'', ''none''] (tool_args (compress_invocation e img i out r ll))
   \<and> ''-f'' \<in> set (tool_args (compress_invocation e img i out r ll))
   \<and> (''--low-latency'' \<in> set (tool_args (compress_invocation e img i out r ll)) \<longleftrightarrow> ll)
   \<and> (''-r'' \<in> set (tool_args (compress_invocation e img i out r ll)) \<longleftrightarrow> truthy r)"
proof -
  let ?c = "compress_invocation e img i out r ll"
  have "tool_args ?c =
          [''run'', ''-i'', ''/work/'' @ name (resolve e i), ''-o'', ''/work/'' @ name (resolve e out)]
          @ [''--qv'', ''none'']
          @ (''-f'' # (if ll then [''--low-latency''] else [])
               @ (if truthy r then [''-r'', ''/work/'' @ name (resolve e (the r))] else []))"
    by (simp add: tool_args_compress)
  then have "sublist [''--qv'', ''none''] (tool_args ?c)"
    unfolding sublist_def by blast
  then show ?thesis by (simp add: tool_args_compress)
qed

lemma decompress_flags:
  "''-f'' \<in> set (tool_args (decompress_invocation e img i out r))
   \<and> ''--qv'' \<notin> set (tool_args (decompress_invocation e img i out r))
   \<and> (img \<noteq> ''--qv'' \<longrightarrow> ''--qv'' \<notin> set (decompress_invocation e img i out r))
   \<and> (''-r'' \<in> set (tool_args (decompress_invocation e img i out r)) \<longleftrightarrow> truthy r)"
  by (simp add: tool_args_decompress) (simp add: decompress_invocation_def path_str_def)

lemma reference_words:
  "(truthy r \<longrightarrow> suffix [''-r'', ''/work/'' @ name (resolve e (the r))]
                    (compress_invocation e img i out r ll))
   \<and> (truthy r \<longrightarrow> suffix [''-r'', ''/work/'' @ name (resolve e (the r))]
                    (decompress_invocation e img i out r))
   \<and> (\<not> truthy r \<and> img \<noteq> ''-r'' \<longrightarrow> ''-r'' \<notin> set (compress_invocation e img i out r ll))
   \<and> (\<not> truthy r \<and> img \<noteq> ''-r'' \<longrightarrow> ''-r'' \<notin> set (decompress_invocation e img i out r))"
  by (auto simp: compress_invocation_def decompress_invocation_def suffix_def path_str_def)

lemma low_latency_words:
  "img \<noteq> ''--low-latency''
     \<Longrightarrow> ''--low-latency'' \<in> set (compress_invocation e img i out r ll) \<longleftrightarrow> ll"
  by (auto simp: compress_invocation_def path_str_def)

text \<open>More concrete runs.\<close>

lemma quiet_mkdir: "mkdir_ok quiet_env d"
  by (simp add: quiet_env_def)

lemma quiet_resolve:
  "resolve_paths quiet_env [Some ''a/in.fastq'', Some ''a/out.mgb'', None]
     = Inr ([[''home'', ''u'', ''a'', ''in.fastq''], [''home'', ''u'', ''a'', ''out.mgb'']],
            [''home'', ''u'', ''a''])"
  by (simp add: resolve_paths_def quiet_env_def resolve_lexical_def parent_def)

lemma quiet_resolve_back:
  "resolve_paths quiet_env [Some ''a/out.mgb'', Some ''a/back.fastq'', None]
     = Inr ([[''home'', ''u'', ''a'', ''out.mgb''], [''home'', ''u'', ''a'', ''back.fastq'']],
            [''home'', ''u'', ''a''])"
  by (simp add: resolve_paths_def quiet_env_def resolve_lexical_def parent_def)

lemma quiet_resolve_back_ref:
  "resolve_paths quiet_env [Some ''a/out.mgb'', Some ''a/back.fastq'', Some ''a/ref.fa'']
     = Inr ([[''home'', ''u'', ''a'', ''out.mgb''], [''home'', ''u'', ''a'', ''back.fastq''],
             [''home'', ''u'', ''a'', ''ref.fa'']],
            [''home'', ''u'', ''a''])"
  by (simp add: resolve_paths_def quiet_env_def resolve_lexical_def parent_def)

lemma quiet_decompress_ref:
  "docker_decompress quiet_env default_image ''a/out.mgb'' ''a/back.fastq'' (Some ''a/ref.fa'') =
     (Inr ''done'',
      [Mkdir [''home'', ''u'', ''a''],
       Run [''docker'', ''run'', ''--rm'', ''-v'', ''/home/u/a:/work'', ''muefab/genie:latest'',
            ''run'', ''-i'', ''/work/out.mgb'', ''-o'', ''/work/back.fastq'', ''-f'',
            ''-r'', ''/work/ref.fa''],
       Print ''[Genie Docker] Output: done''])"
  by (simp add: docker_decompress_def resolve_paths_def index_def run_command_def quiet_env_def
        resolve_lexical_def parent_def name_def path_str_def default_image_def Let_def)




section \<open>The failure policy of the command execution\<close>

text \<open>
  Claim C1. Whatever the command, when the external process has run to its end,
  \<^verbatim>\<open>_run_command\<close> raises a \<^verbatim>\<open>RuntimeError\<close> exactly when the exit status is not zero or
  the captured error stream contains \<^verbatim>\<open>ERROR\<close>, the message then carries the captured
  error stream, and in the remaining case it returns the captured output. An exit
  status of zero with \<^verbatim>\<open>ERROR\<close> on the error stream is a failure.
\<close>

theorem run_command_failure_policy:
  assumes "subprocess_run e cmd = Exited rc out err"
  shows "((\<exists>msg. fst (run_command e cmd) = Inl (RuntimeError msg))
            \<longleftrightarrow> rc \<noteq> 0 \<or> sublist ''ERROR'' err)
       \<and> (rc \<noteq> 0 \<or> sublist ''ERROR'' err
            \<longrightarrow> fst (run_command e cmd)
                  = Inl (RuntimeError (''Genie Docker failed:\<newline>'' @ err)))
       \<and> (rc = 0 \<and> \<not> sublist ''ERROR'' err \<longrightarrow> fst (run_command e cmd) = Inr out)"
  using assms by (auto simp: run_command_def str_contains_iff)

theorem run_command_failure_policy_witness:
  "subprocess_run quirk_env [''docker''] = Exited 0 ''log'' ''ERROR: Input file does not exist''
   \<and> sublist ''ERROR'' ''ERROR: Input file does not exist''
   \<and> fst (run_command quirk_env [''docker''])
       = Inl (RuntimeError ''Genie Docker failed:\<newline>ERROR: Input file does not exist'')"
proof -
  have h: "subprocess_run quirk_env [''docker'']
             = Exited 0 ''log'' ''ERROR: Input file does not exist''"
    by (simp add: quirk_env_def quiet_env_def)
  have s: "sublist ''ERROR'' ''ERROR: Input file does not exist''"
    by (simp add: str_contains_iff [symmetric])
  from run_command_failure_policy [OF h] s h show ?thesis by simp
qed

section \<open>The path check\<close>




section \<open>The backend selector and the public functions\<close>

text \<open>
  Claim C3. For every mode string other than exactly \<^verbatim>\<open>native\<close> and \<^verbatim>\<open>docker\<close> (so also
  for \<^verbatim>\<open>Native\<close>), the selector and the public \<^verbatim>\<open>compress\<close> and \<^verbatim>\<open>decompress\<close> called with
  that mode raise a \<^verbatim>\<open>ValueError\<close>, nothing else having happened; its message is the fixed
  template around the mode, so it contains the mode verbatim and names \<^verbatim>\<open>native\<close> and
  \<^verbatim>\<open>docker\<close>.
\<close>

theorem unknown_mode_rejected:
  assumes "m \<noteq> ''native''" and "m \<noteq> ''docker''"
  shows "\<exists>msg. msg = ''Unknown mode '' @ [CHR 0x27] @ m @ [CHR 0x27]
                        @ ''. Must be 'native' or 'docker'.''
           \<and> get_runner m = Inl (ValueError msg)
           \<and> compress e i out r (Some m) ll = (Inl (ValueError msg), [])
           \<and> decompress e i out r (Some m) = (Inl (ValueError msg), [])
           \<and> sublist m msg \<and> sublist ''native'' msg \<and> sublist ''docker'' msg"
proof -
  let ?msg = "''Unknown mode '' @ [CHR 0x27] @ m @ [CHR 0x27]
                @ ''. Must be 'native' or 'docker'.''"
  have g: "get_runner m = Inl (ValueError ?msg)"
    using assms by (simp add: get_runner_def)
  have "?msg = (''Unknown mode '' @ [CHR 0x27]) @ m
                 @ ([CHR 0x27] @ ''. Must be 'native' or 'docker'.'')"
    by simp
  then have m: "sublist m ?msg" unfolding sublist_def by blast
  have "?msg = (''Unknown mode '' @ [CHR 0x27] @ m @ [CHR 0x27] @ ''. Must be ''
                  @ [CHR 0x27]) @ ''native'' @ (CHR 0x27 # '' or 'docker'.'')"
    by simp
  then have n: "sublist ''native'' ?msg" unfolding sublist_def by blast
  have "?msg = (''Unknown mode '' @ [CHR 0x27] @ m @ [CHR 0x27]
                  @ ''. Must be 'native' or '' @ [CHR 0x27]) @ ''docker'' @ (CHR 0x27 # ''.'')"
    by simp
  then have d: "sublist ''docker'' ?msg" unfolding sublist_def by blast
  from g m n d show ?thesis by (simp add: compress_def decompress_def)
qed

theorem unknown_mode_rejected_witness:
  "''Native'' \<noteq> ''native'' \<and> ''Native'' \<noteq> ''docker''
   \<and> get_runner ''Native''
       = Inl (ValueError ''Unknown mode 'Native'. Must be 'native' or 'docker'.'')
   \<and> compress quiet_env ''in.fastq'' ''out.mgb'' None (Some ''Native'') None
       = (Inl (ValueError ''Unknown mode 'Native'. Must be 'native' or 'docker'.''), [])
   \<and> decompress quiet_env ''in.fastq'' ''out.mgb'' None (Some ''Native'')
       = (Inl (ValueError ''Unknown mode 'Native'. Must be 'native' or 'docker'.''), [])"
  using unknown_mode_rejected [of "''Native''" quiet_env "''in.fastq''" "''out.mgb''" None None]
  by simp

text \<open>
  Claim C4. The call \<^verbatim>\<open>compress("a/in.fastq", "a/out.mgb", mode="native")\<close>, which leaves
  the reference and the low-latency switch out, calls the native backend's \<^verbatim>\<open>compress\<close>
  once, with \<^verbatim>\<open>reference=None\<close> and \<^verbatim>\<open>low_latency=False\<close>, and does nothing else; what
  it returns is what that one call returned.
\<close>

theorem native_compress_called_once:
  "compress e ''a/in.fastq'' ''a/out.mgb'' None (Some ''native'') None
     = (native_compress e ''a/in.fastq'' ''a/out.mgb'' None False,
        [NativeCompress ''a/in.fastq'' ''a/out.mgb'' None False])"
  by (simp add: compress_def get_runner_def)

theorem native_compress_called_once_witness:
  "compress quiet_env ''a/in.fastq'' ''a/out.mgb'' None (Some ''native'') None
     = (Inr ''native out'', [NativeCompress ''a/in.fastq'' ''a/out.mgb'' None False])"
  using native_compress_called_once [of quiet_env] by (simp add: quiet_env_def)

section \<open>The constructed command\<close>

text \<open>
  Claim C5. Whatever the arguments, a containerized \<^verbatim>\<open>compress\<close> whose checks pass
  constructs and runs a command, and every command it runs passes \<^verbatim>\<open>--qv none\<close> and
  \<^verbatim>\<open>-f\<close> to the tool; a containerized \<^verbatim>\<open>decompress\<close> whose checks pass constructs and runs
  a command, and every command it runs passes \<^verbatim>\<open>-f\<close> and never \<^verbatim>\<open>--qv\<close> (which then
  occurs nowhere in the command, unless the image itself is called so). The checks are
  those of the code: the path check succeeds, input and output are not empty, and the
  directory can be made.
\<close>

theorem quality_and_overwrite_flags:
  "(\<forall>cmd. Run cmd \<in> set (snd (docker_compress e img i out r ll))
      \<longrightarrow> sublist [''--qv'', ''none''] (tool_args cmd) \<and> ''-f'' \<in> set (tool_args cmd))
   \<and> (\<forall>cmd. Run cmd \<in> set (snd (docker_decompress e img i out r))
      \<longrightarrow> ''-f'' \<in> set (tool_args cmd) \<and> ''--qv'' \<notin> set (tool_args cmd)
          \<and> (img \<noteq> ''--qv'' \<longrightarrow> ''--qv'' \<notin> set cmd))
   \<and> (resolve_paths e [Some i, Some out, r] = Inr (paths, bind_dir)
        \<and> i \<noteq> [] \<and> out \<noteq> [] \<and> mkdir_ok e bind_dir
      \<longrightarrow> (\<exists>cmd. Run cmd \<in> set (snd (docker_compress e img i out r ll))
                 \<and> sublist [''--qv'', ''none''] (tool_args cmd) \<and> ''-f'' \<in> set (tool_args cmd))
          \<and> (\<exists>cmd. Run cmd \<in> set (snd (docker_decompress e img i out r))
                 \<and> ''-f'' \<in> set (tool_args cmd) \<and> ''--qv'' \<notin> set (tool_args cmd)))"
proof -
  have a: "\<forall>cmd. Run cmd \<in> set (snd (docker_compress e img i out r ll))
      \<longrightarrow> sublist [''--qv'', ''none''] (tool_args cmd) \<and> ''-f'' \<in> set (tool_args cmd)"
    using compress_flags [of e img i out r ll] by (simp add: compress_runs)
  have b: "\<forall>cmd. Run cmd \<in> set (snd (docker_decompress e img i out r))
      \<longrightarrow> ''-f'' \<in> set (tool_args cmd) \<and> ''--qv'' \<notin> set (tool_args cmd)
          \<and> (img \<noteq> ''--qv'' \<longrightarrow> ''--qv'' \<notin> set cmd)"
    using decompress_flags [of e img i out r] by (simp add: decompress_runs)
  have c: "(\<exists>cmd. Run cmd \<in> set (snd (docker_compress e img i out r ll))
                 \<and> sublist [''--qv'', ''none''] (tool_args cmd) \<and> ''-f'' \<in> set (tool_args cmd))
          \<and> (\<exists>cmd. Run cmd \<in> set (snd (docker_decompress e img i out r))
                 \<and> ''-f'' \<in> set (tool_args cmd) \<and> ''--qv'' \<notin> set (tool_args cmd))"
    if "resolve_paths e [Some i, Some out, r] = Inr (paths, bind_dir)
        \<and> i \<noteq> [] \<and> out \<noteq> [] \<and> mkdir_ok e bind_dir"
  proof -
    from that runs_when_checks_pass [of e i out r paths bind_dir img ll]
    have "Run (compress_invocation e img i out r ll)
            \<in> set (snd (docker_compress e img i out r ll))"
      and "Run (decompress_invocation e img i out r)
            \<in> set (snd (docker_decompress e img i out r))"
      by blast+
    with a b show ?thesis by blast
  qed
  from a b c show ?thesis by blast
qed

theorem quality_and_overwrite_flags_witness:
  "resolve_paths quiet_env [Some ''a/in.fastq'', Some ''a/out.mgb'', None]
     = Inr ([[''home'', ''u'', ''a'', ''in.fastq''], [''home'', ''u'', ''a'', ''out.mgb'']],
            [''home'', ''u'', ''a''])
   \<and> ''a/in.fastq'' \<noteq> [] \<and> ''a/out.mgb'' \<noteq> [] \<and> mkdir_ok quiet_env [''home'', ''u'', ''a'']
   \<and> (\<exists>cmd. Run cmd \<in> set (snd (docker_compress quiet_env default_image
                                      ''a/in.fastq'' ''a/out.mgb'' None False))
          \<and> sublist [''--qv'', ''none''] (tool_args cmd) \<and> ''-f'' \<in> set (tool_args cmd))
   \<and> resolve_paths quiet_env [Some ''a/out.mgb'', Some ''a/back.fastq'', None]
     = Inr ([[''home'', ''u'', ''a'', ''out.mgb''], [''home'', ''u'', ''a'', ''back.fastq'']],
            [''home'', ''u'', ''a''])
   \<and> ''a/back.fastq'' \<noteq> []
   \<and> (\<exists>cmd. Run cmd \<in> set (snd (docker_decompress quiet_env default_image
                                      ''a/out.mgb'' ''a/back.fastq'' None))
          \<and> ''-f'' \<in> set (tool_args cmd) \<and> ''--qv'' \<notin> set (tool_args cmd))
   \<and> Run [''docker'', ''run'', ''--rm'', ''-v'', ''/home/u/a:/work'', ''muefab/genie:latest'',
        ''run'', ''-i'', ''/work/in.fastq'', ''-o'', ''/work/out.mgb'', ''--qv'', ''none'', ''-f'']
     \<in> set (snd (docker_compress quiet_env default_image ''a/in.fastq'' ''a/out.mgb'' None False))
   \<and> sublist [''--qv'', ''none'']
        (tool_args [''docker'', ''run'', ''--rm'', ''-v'', ''/home/u/a:/work'',
           ''muefab/genie:latest'', ''run'', ''-i'', ''/work/in.fastq'', ''-o'', ''/work/out.mgb'',
           ''--qv'', ''none'', ''-f''])
   \<and> ''-f'' \<in> set (tool_args [''docker'', ''run'', ''--rm'', ''-v'', ''/home/u/a:/work'',
           ''muefab/genie:latest'', ''run'', ''-i'', ''/work/in.fastq'', ''-o'', ''/work/out.mgb'',
           ''--qv'', ''none'', ''-f''])
   \<and> Run [''docker'', ''run'', ''--rm'', ''-v'', ''/home/u/a:/work'', ''muefab/genie:latest'',
        ''run'', ''-i'', ''/work/out.mgb'', ''-o'', ''/work/back.fastq'', ''-f'']
     \<in> set (snd (docker_decompress quiet_env default_image ''a/out.mgb'' ''a/back.fastq'' None))
   \<and> default_image \<noteq> ''--qv''
   \<and> ''--qv'' \<notin> set [''docker'', ''run'', ''--rm'', ''-v'', ''/home/u/a:/work'',
           ''muefab/genie:latest'', ''run'', ''-i'', ''/work/out.mgb'', ''-o'', ''/work/back.fastq'',
           ''-f'']"
proof -
  let ?c = "[''docker'', ''run'', ''--rm'', ''-v'', ''/home/u/a:/work'', ''muefab/genie:latest'',
        ''run'', ''-i'', ''/work/in.fastq'', ''-o'', ''/work/out.mgb'', ''--qv'', ''none'', ''-f'']"
  let ?d = "[''docker'', ''run'', ''--rm'', ''-v'', ''/home/u/a:/work'', ''muefab/genie:latest'',
        ''run'', ''-i'', ''/work/out.mgb'', ''-o'', ''/work/back.fastq'', ''-f'']"
  have c: "Run ?c \<in> set (snd (docker_compress quiet_env default_image
                                 ''a/in.fastq'' ''a/out.mgb'' None False))"
    by (simp add: quiet_compress)
  have d: "Run ?d \<in> set (snd (docker_decompress quiet_env default_image
                                 ''a/out.mgb'' ''a/back.fastq'' None))"
    by (simp add: quiet_decompress)
  have img: "default_image \<noteq> ''--qv''" by (simp add: default_image_def)
  have ne: "''a/in.fastq'' \<noteq> []" "''a/out.mgb'' \<noteq> []" "''a/back.fastq'' \<noteq> []" by simp_all
  have mk: "mkdir_ok quiet_env [''home'', ''u'', ''a'']" by (rule quiet_mkdir)
  note fwd = quality_and_overwrite_flags
               [of quiet_env default_image "''a/in.fastq''" "''a/out.mgb''" None False
                   "[[''home'', ''u'', ''a'', ''in.fastq''], [''home'', ''u'', ''a'', ''out.mgb'']]"
                   "[''home'', ''u'', ''a'']"]
  note dec = quality_and_overwrite_flags
               [of quiet_env default_image "''a/out.mgb''" "''a/back.fastq''" None False
                   "[[''home'', ''u'', ''a'', ''out.mgb''], [''home'', ''u'', ''a'', ''back.fastq'']]"
                   "[''home'', ''u'', ''a'']"]
  from fwd c have 1: "sublist [''--qv'', ''none''] (tool_args ?c) \<and> ''-f'' \<in> set (tool_args ?c)"
    by blast
  from dec d img have 2: "''--qv'' \<notin> set ?d" by blast
  from fwd quiet_resolve ne mk
  have 3: "\<exists>cmd. Run cmd \<in> set (snd (docker_compress quiet_env default_image
                                      ''a/in.fastq'' ''a/out.mgb'' None False))
          \<and> sublist [''--qv'', ''none''] (tool_args cmd) \<and> ''-f'' \<in> set (tool_args cmd)"
    by blast
  from dec quiet_resolve_back ne mk
  have 4: "\<exists>cmd. Run cmd \<in> set (snd (docker_decompress quiet_env default_image
                                      ''a/out.mgb'' ''a/back.fastq'' None))
          \<and> ''-f'' \<in> set (tool_args cmd) \<and> ''--qv'' \<notin> set (tool_args cmd)"
    by blast
  from c d img ne mk 1 2 3 4 quiet_resolve quiet_resolve_back show ?thesis by blast
qed

text \<open>
  Claim C6. A containerized \<^verbatim>\<open>compress\<close> whose checks pass constructs and runs a command,
  and every command it runs passes \<^verbatim>\<open>--low-latency\<close> to the tool exactly when
  \<^verbatim>\<open>low_latency\<close> is true; when it is false the word occurs nowhere in the command
  (unless the image itself is called so).
\<close>

theorem low_latency_flag:
  "(\<forall>cmd. Run cmd \<in> set (snd (docker_compress e img i out r ll))
      \<longrightarrow> (''--low-latency'' \<in> set (tool_args cmd) \<longleftrightarrow> ll)
          \<and> (img \<noteq> ''--low-latency'' \<longrightarrow> (''--low-latency'' \<in> set cmd \<longleftrightarrow> ll)))
   \<and> (resolve_paths e [Some i, Some out, r] = Inr (paths, bind_dir)
        \<and> i \<noteq> [] \<and> out \<noteq> [] \<and> mkdir_ok e bind_dir
      \<longrightarrow> (\<exists>cmd. Run cmd \<in> set (snd (docker_compress e img i out r ll))
                 \<and> (''--low-latency'' \<in> set (tool_args cmd) \<longleftrightarrow> ll)))"
proof -
  have a: "\<forall>cmd. Run cmd \<in> set (snd (docker_compress e img i out r ll))
      \<longrightarrow> (''--low-latency'' \<in> set (tool_args cmd) \<longleftrightarrow> ll)
          \<and> (img \<noteq> ''--low-latency'' \<longrightarrow> (''--low-latency'' \<in> set cmd \<longleftrightarrow> ll))"
    using compress_flags [of e img i out r ll] low_latency_words [of img e i out r ll]
    by (simp add: compress_runs)
  have b: "\<exists>cmd. Run cmd \<in> set (snd (docker_compress e img i out r ll))
                 \<and> (''--low-latency'' \<in> set (tool_args cmd) \<longleftrightarrow> ll)"
    if "resolve_paths e [Some i, Some out, r] = Inr (paths, bind_dir)
        \<and> i \<noteq> [] \<and> out \<noteq> [] \<and> mkdir_ok e bind_dir"
  proof -
    from that runs_when_checks_pass [of e i out r paths bind_dir img ll]
    have "Run (compress_invocation e img i out r ll)
            \<in> set (snd (docker_compress e img i out r ll))"
      by blast
    with a show ?thesis by blast
  qed
  from a b show ?thesis by blast
qed

theorem low_latency_flag_witness:
  "resolve_paths quiet_env [Some ''a/in.fastq'', Some ''a/out.mgb'', Some ''a/ref.fa'']
     = Inr ([[''home'', ''u'', ''a'', ''in.fastq''], [''home'', ''u'', ''a'', ''out.mgb''],
             [''home'', ''u'', ''a'', ''ref.fa'']],
            [''home'', ''u'', ''a''])
   \<and> ''a/in.fastq'' \<noteq> [] \<and> ''a/out.mgb'' \<noteq> [] \<and> mkdir_ok quiet_env [''home'', ''u'', ''a'']
   \<and> (\<exists>cmd. Run cmd \<in> set (snd (docker_compress quiet_env default_image ''a/in.fastq''
                                      ''a/out.mgb'' (Some ''a/ref.fa'') True))
          \<and> ''--low-latency'' \<in> set (tool_args cmd))
   \<and> resolve_paths quiet_env [Some ''a/in.fastq'', Some ''a/out.mgb'', None]
     = Inr ([[''home'', ''u'', ''a'', ''in.fastq''], [''home'', ''u'', ''a'', ''out.mgb'']],
            [''home'', ''u'', ''a''])
   \<and> (\<exists>cmd. Run cmd \<in> set (snd (docker_compress quiet_env default_image ''a/in.fastq''
                                      ''a/out.mgb'' None False))
          \<and> ''--low-latency'' \<notin> set (tool_args cmd))
   \<and> Run [''docker'', ''run'', ''--rm'', ''-v'', ''/home/u/a:/work'', ''muefab/genie:latest'',
        ''run'', ''-i'', ''/work/in.fastq'', ''-o'', ''/work/out.mgb'',
        ''--qv'', ''none'', ''-f'', ''--low-latency'', ''-r'', ''/work/ref.fa'']
     \<in> set (snd (docker_compress quiet_env default_image ''a/in.fastq'' ''a/out.mgb''
                    (Some ''a/ref.fa'') True))
   \<and> ''--low-latency''
       \<in> set (tool_args [''docker'', ''run'', ''--rm'', ''-v'', ''/home/u/a:/work'',
                 ''muefab/genie:latest'', ''run'', ''-i'', ''/work/in.fastq'',
                 ''-o'', ''/work/out.mgb'', ''--qv'', ''none'', ''-f'', ''--low-latency'',
                 ''-r'', ''/work/ref.fa''])
   \<and> Run [''docker'', ''run'', ''--rm'', ''-v'', ''/home/u/a:/work'', ''muefab/genie:latest'',
        ''run'', ''-i'', ''/work/in.fastq'', ''-o'', ''/work/out.mgb'', ''--qv'', ''none'', ''-f'']
     \<in> set (snd (docker_compress quiet_env default_image ''a/in.fastq'' ''a/out.mgb'' None False))
   \<and> default_image \<noteq> ''--low-latency''
   \<and> ''--low-latency''
       \<notin> set [''docker'', ''run'', ''--rm'', ''-v'', ''/home/u/a:/work'',
                 ''muefab/genie:latest'', ''run'', ''-i'', ''/work/in.fastq'',
                 ''-o'', ''/work/out.mgb'', ''--qv'', ''none'', ''-f'']"
proof -
  let ?on = "[''docker'', ''run'', ''--rm'', ''-v'', ''/home/u/a:/work'', ''muefab/genie:latest'',
        ''run'', ''-i'', ''/work/in.fastq'', ''-o'', ''/work/out.mgb'',
        ''--qv'', ''none'', ''-f'', ''--low-latency'', ''-r'', ''/work/ref.fa'']"
  let ?off = "[''docker'', ''run'', ''--rm'', ''-v'', ''/home/u/a:/work'', ''muefab/genie:latest'',
        ''run'', ''-i'', ''/work/in.fastq'', ''-o'', ''/work/out.mgb'', ''--qv'', ''none'', ''-f'']"
  have on: "Run ?on \<in> set (snd (docker_compress quiet_env default_image ''a/in.fastq''
                                  ''a/out.mgb'' (Some ''a/ref.fa'') True))"
    by (simp add: quiet_compress_ref)
  have off: "Run ?off \<in> set (snd (docker_compress quiet_env default_image ''a/in.fastq''
                                    ''a/out.mgb'' None False))"
    by (simp add: quiet_compress)
  have img: "default_image \<noteq> ''--low-latency''" by (simp add: default_image_def)
  have ne: "''a/in.fastq'' \<noteq> []" "''a/out.mgb'' \<noteq> []" by simp_all
  have mk: "mkdir_ok quiet_env [''home'', ''u'', ''a'']" by (rule quiet_mkdir)
  note with_flag = low_latency_flag
        [of quiet_env default_image "''a/in.fastq''" "''a/out.mgb''" "Some ''a/ref.fa''" True
            "[[''home'', ''u'', ''a'', ''in.fastq''], [''home'', ''u'', ''a'', ''out.mgb''],
              [''home'', ''u'', ''a'', ''ref.fa'']]"
            "[''home'', ''u'', ''a'']"]
  note without = low_latency_flag
        [of quiet_env default_image "''a/in.fastq''" "''a/out.mgb''" None False
            "[[''home'', ''u'', ''a'', ''in.fastq''], [''home'', ''u'', ''a'', ''out.mgb'']]"
            "[''home'', ''u'', ''a'']"]
  from with_flag on have 1: "''--low-latency'' \<in> set (tool_args ?on)" by blast
  from without off img have 2: "''--low-latency'' \<notin> set ?off" by blast
  from with_flag quiet_resolve_ref ne mk
  have 3: "\<exists>cmd. Run cmd \<in> set (snd (docker_compress quiet_env default_image ''a/in.fastq''
                                      ''a/out.mgb'' (Some ''a/ref.fa'') True))
          \<and> ''--low-latency'' \<in> set (tool_args cmd)"
    by blast
  from without quiet_resolve ne mk
  have 4: "\<exists>cmd. Run cmd \<in> set (snd (docker_compress quiet_env default_image ''a/in.fastq''
                                      ''a/out.mgb'' None False))
          \<and> ''--low-latency'' \<notin> set (tool_args cmd)"
    by blast
  from on off img ne mk 1 2 3 4 quiet_resolve quiet_resolve_ref show ?thesis by blast
qed

text \<open>
  Claim C7. A containerized \<^verbatim>\<open>compress\<close> or \<^verbatim>\<open>decompress\<close> whose checks pass constructs
  and runs a command, and every command it runs passes \<^verbatim>\<open>-r\<close> to the tool exactly when a
  reference was supplied; it then ends with \<^verbatim>\<open>-r\<close> and the reference's path inside the
  container, and without a reference \<^verbatim>\<open>-r\<close> occurs nowhere in the command (unless the
  image itself is called so).
\<close>

theorem reference_flag:
  "(\<forall>cmd. Run cmd \<in> set (snd (docker_compress e img i out r ll))
           \<or> Run cmd \<in> set (snd (docker_decompress e img i out r))
      \<longrightarrow> (''-r'' \<in> set (tool_args cmd) \<longleftrightarrow> truthy r)
          \<and> (truthy r \<longrightarrow> suffix [''-r'', ''/work/'' @ name (resolve e (the r))] cmd)
          \<and> (\<not> truthy r \<and> img \<noteq> ''-r'' \<longrightarrow> ''-r'' \<notin> set cmd))
   \<and> (resolve_paths e [Some i, Some out, r] = Inr (paths, bind_dir)
        \<and> i \<noteq> [] \<and> out \<noteq> [] \<and> mkdir_ok e bind_dir
      \<longrightarrow> (\<exists>cmd. Run cmd \<in> set (snd (docker_compress e img i out r ll))
                 \<and> (''-r'' \<in> set (tool_args cmd) \<longleftrightarrow> truthy r))
          \<and> (\<exists>cmd. Run cmd \<in> set (snd (docker_decompress e img i out r))
                 \<and> (''-r'' \<in> set (tool_args cmd) \<longleftrightarrow> truthy r)))"
proof -
  have a: "\<forall>cmd. Run cmd \<in> set (snd (docker_compress e img i out r ll))
           \<or> Run cmd \<in> set (snd (docker_decompress e img i out r))
      \<longrightarrow> (''-r'' \<in> set (tool_args cmd) \<longleftrightarrow> truthy r)
          \<and> (truthy r \<longrightarrow> suffix [''-r'', ''/work/'' @ name (resolve e (the r))] cmd)
          \<and> (\<not> truthy r \<and> img \<noteq> ''-r'' \<longrightarrow> ''-r'' \<notin> set cmd)"
    using compress_flags [of e img i out r ll] decompress_flags [of e img i out r]
      reference_words [of r e img i out ll]
    by (auto simp: compress_runs decompress_runs)
  have b: "(\<exists>cmd. Run cmd \<in> set (snd (docker_compress e img i out r ll))
                 \<and> (''-r'' \<in> set (tool_args cmd) \<longleftrightarrow> truthy r))
          \<and> (\<exists>cmd. Run cmd \<in> set (snd (docker_decompress e img i out r))
                 \<and> (''-r'' \<in> set (tool_args cmd) \<longleftrightarrow> truthy r))"
    if "resolve_paths e [Some i, Some out, r] = Inr (paths, bind_dir)
        \<and> i \<noteq> [] \<and> out \<noteq> [] \<and> mkdir_ok e bind_dir"
  proof -
    from that runs_when_checks_pass [of e i out r paths bind_dir img ll]
    have "Run (compress_invocation e img i out r ll)
            \<in> set (snd (docker_compress e img i out r ll))"
      and "Run (decompress_invocation e img i out r)
            \<in> set (snd (docker_decompress e img i out r))"
      by blast+
    with a show ?thesis by blast
  qed
  from a b show ?thesis by blast
qed

theorem reference_flag_witness:
  "resolve_paths quiet_env [Some ''a/out.mgb'', Some ''a/back.fastq'', Some ''a/ref.fa'']
     = Inr ([[''home'', ''u'', ''a'', ''out.mgb''], [''home'', ''u'', ''a'', ''back.fastq''],
             [''home'', ''u'', ''a'', ''ref.fa'']],
            [''home'', ''u'', ''a''])
   \<and> ''a/out.mgb'' \<noteq> [] \<and> ''a/back.fastq'' \<noteq> [] \<and> mkdir_ok quiet_env [''home'', ''u'', ''a'']
   \<and> truthy (Some ''a/ref.fa'')
   \<and> (\<exists>cmd. Run cmd \<in> set (snd (docker_decompress quiet_env default_image ''a/out.mgb''
                                      ''a/back.fastq'' (Some ''a/ref.fa'')))
          \<and> ''-r'' \<in> set (tool_args cmd))
   \<and> (\<exists>cmd. Run cmd \<in> set (snd (docker_compress quiet_env default_image ''a/out.mgb''
                                      ''a/back.fastq'' (Some ''a/ref.fa'') False))
          \<and> ''-r'' \<in> set (tool_args cmd))
   \<and> Run [''docker'', ''run'', ''--rm'', ''-v'', ''/home/u/a:/work'', ''muefab/genie:latest'',
        ''run'', ''-i'', ''/work/out.mgb'', ''-o'', ''/work/back.fastq'', ''-f'',
        ''-r'', ''/work/ref.fa'']
     \<in> set (snd (docker_decompress quiet_env default_image ''a/out.mgb'' ''a/back.fastq''
                    (Some ''a/ref.fa'')))
   \<and> suffix [''-r'', ''/work/'' @ name (resolve quiet_env ''a/ref.fa'')]
        [''docker'', ''run'', ''--rm'', ''-v'', ''/home/u/a:/work'', ''muefab/genie:latest'',
         ''run'', ''-i'', ''/work/out.mgb'', ''-o'', ''/work/back.fastq'', ''-f'',
         ''-r'', ''/work/ref.fa'']
   \<and> Run [''docker'', ''run'', ''--rm'', ''-v'', ''/home/u/a:/work'', ''muefab/genie:latest'',
        ''run'', ''-i'', ''/work/out.mgb'', ''-o'', ''/work/back.fastq'', ''-f'']
     \<in> set (snd (docker_decompress quiet_env default_image ''a/out.mgb'' ''a/back.fastq'' None))
   \<and> \<not> truthy None \<and> default_image \<noteq> ''-r''
   \<and> ''-r'' \<notin> set [''docker'', ''run'', ''--rm'', ''-v'', ''/home/u/a:/work'',
                 ''muefab/genie:latest'', ''run'', ''-i'', ''/work/out.mgb'',
                 ''-o'', ''/work/back.fastq'', ''-f'']
   \<and> Run [''docker'', ''run'', ''--rm'', ''-v'', ''/home/u/a:/work'', ''muefab/genie:latest'',
        ''run'', ''-i'', ''/work/in.fastq'', ''-o'', ''/work/out.mgb'',
        ''--qv'', ''none'', ''-f'', ''--low-latency'', ''-r'', ''/work/ref.fa'']
     \<in> set (snd (docker_compress quiet_env default_image ''a/in.fastq'' ''a/out.mgb''
                    (Some ''a/ref.fa'') True))
   \<and> suffix [''-r'', ''/work/'' @ name (resolve quiet_env ''a/ref.fa'')]
        [''docker'', ''run'', ''--rm'', ''-v'', ''/home/u/a:/work'', ''muefab/genie:latest'',
         ''run'', ''-i'', ''/work/in.fastq'', ''-o'', ''/work/out.mgb'',
         ''--qv'', ''none'', ''-f'', ''--low-latency'', ''-r'', ''/work/ref.fa'']"
proof -
  let ?dr = "[''docker'', ''run'', ''--rm'', ''-v'', ''/home/u/a:/work'', ''muefab/genie:latest'',
        ''run'', ''-i'', ''/work/out.mgb'', ''-o'', ''/work/back.fastq'', ''-f'',
        ''-r'', ''/work/ref.fa'']"
  let ?d = "[''docker'', ''run'', ''--rm'', ''-v'', ''/home/u/a:/work'', ''muefab/genie:latest'',
        ''run'', ''-i'', ''/work/out.mgb'', ''-o'', ''/work/back.fastq'', ''-f'']"
  let ?c = "[''docker'', ''run'', ''--rm'', ''-v'', ''/home/u/a:/work'', ''muefab/genie:latest'',
        ''run'', ''-i'', ''/work/in.fastq'', ''-o'', ''/work/out.mgb'',
        ''--qv'', ''none'', ''-f'', ''--low-latency'', ''-r'', ''/work/ref.fa'']"
  have dr: "Run ?dr \<in> set (snd (docker_decompress quiet_env default_image ''a/out.mgb''
                                   ''a/back.fastq'' (Some ''a/ref.fa'')))"
    by (simp add: quiet_decompress_ref)
  have d: "Run ?d \<in> set (snd (docker_decompress quiet_env default_image
                                 ''a/out.mgb'' ''a/back.fastq'' None))"
    by (simp add: quiet_decompress)
  have c: "Run ?c \<in> set (snd (docker_compress quiet_env default_image ''a/in.fastq''
                                 ''a/out.mgb'' (Some ''a/ref.fa'') True))"
    by (simp add: quiet_compress_ref)
  have img: "default_image \<noteq> ''-r''" by (simp add: default_image_def)
  have t: "\<not> truthy None" "truthy (Some ''a/ref.fa'')" by simp_all
  have ne: "''a/out.mgb'' \<noteq> []" "''a/back.fastq'' \<noteq> []" by simp_all
  have mk: "mkdir_ok quiet_env [''home'', ''u'', ''a'']" by (rule quiet_mkdir)
  note dec_ref = reference_flag
        [of quiet_env default_image "''a/out.mgb''" "''a/back.fastq''" "Some ''a/ref.fa''" False
            "[[''home'', ''u'', ''a'', ''out.mgb''], [''home'', ''u'', ''a'', ''back.fastq''],
              [''home'', ''u'', ''a'', ''ref.fa'']]"
            "[''home'', ''u'', ''a'']"]
  note dec = reference_flag
        [of quiet_env default_image "''a/out.mgb''" "''a/back.fastq''" None False]
  note fwd_ref = reference_flag
        [of quiet_env default_image "''a/in.fastq''" "''a/out.mgb''" "Some ''a/ref.fa''" True]
  from dec_ref dr t
  have 1: "suffix [''-r'', ''/work/'' @ name (resolve quiet_env (the (Some ''a/ref.fa'')))] ?dr"
    by blast
  from dec d t img have 2: "''-r'' \<notin> set ?d" by blast
  from fwd_ref c t
  have 3: "suffix [''-r'', ''/work/'' @ name (resolve quiet_env (the (Some ''a/ref.fa'')))] ?c"
    by blast
  from dec_ref quiet_resolve_back_ref ne mk t
  have 4: "(\<exists>cmd. Run cmd \<in> set (snd (docker_decompress quiet_env default_image ''a/out.mgb''
                                      ''a/back.fastq'' (Some ''a/ref.fa'')))
          \<and> ''-r'' \<in> set (tool_args cmd))
      \<and> (\<exists>cmd. Run cmd \<in> set (snd (docker_compress quiet_env default_image ''a/out.mgb''
                                      ''a/back.fastq'' (Some ''a/ref.fa'') False))
          \<and> ''-r'' \<in> set (tool_args cmd))"
    by blast
  from 1 3 have 5: "suffix [''-r'', ''/work/'' @ name (resolve quiet_env ''a/ref.fa'')] ?dr"
    and 6: "suffix [''-r'', ''/work/'' @ name (resolve quiet_env ''a/ref.fa'')] ?c"
    by simp_all
  from dr d c img t ne mk 2 4 5 6 quiet_resolve_back_ref show ?thesis by blast
qed

text \<open>
  Claim C8. In a call of the containerized \<^verbatim>\<open>compress\<close> or \<^verbatim>\<open>decompress\<close> that passes the
  path check, every provided path has the bind directory the check returns as its parent,
  and the constructed command is a container run with one bind mount, of that directory
  to \<^verbatim>\<open>/work\<close>: \<^verbatim>\<open>-v\<close> stands once before the image and not among the tool's arguments.
  The tool gets the input after \<^verbatim>\<open>-i\<close>, the output after \<^verbatim>\<open>-o\<close> and, when a reference is
  supplied, the reference after \<^verbatim>\<open>-r\<close>, each as \<^verbatim>\<open>/work/\<close> followed by the last component
  of its resolved path. Such a command is constructed and run whenever input and output
  are not empty and the directory can be made.
\<close>

theorem bind_mount_and_work_paths:
  assumes "resolve_paths e [Some i, Some out, r] = Inr (paths, bind_dir)"
  shows "(Run cmd \<in> set (snd (docker_compress e img i out r ll))
          \<or> Run cmd \<in> set (snd (docker_decompress e img i out r))
          \<longrightarrow> (\<forall>p \<in> set (provided [Some i, Some out, r]). parent (resolve e p) = bind_dir)
              \<and> take 6 cmd = [''docker'', ''run'', ''--rm'',
                               ''-v'', path_str bind_dir @ '':/work'', img]
              \<and> ''-v'' \<notin> set (tool_args cmd)
              \<and> (img \<noteq> ''-v'' \<longrightarrow> count_list cmd ''-v'' = 1)
              \<and> take 5 (tool_args cmd)
                  = [''run'', ''-i'', ''/work/'' @ name (resolve e i),
                     ''-o'', ''/work/'' @ name (resolve e out)]
              \<and> (truthy r \<longrightarrow> suffix [''-r'', ''/work/'' @ name (resolve e (the r))] cmd))
       \<and> (i \<noteq> [] \<and> out \<noteq> [] \<and> mkdir_ok e bind_dir
          \<longrightarrow> Run (compress_invocation e img i out r ll)
                \<in> set (snd (docker_compress e img i out r ll))
              \<and> Run (decompress_invocation e img i out r)
                \<in> set (snd (docker_decompress e img i out r)))"
proof -
  from assms have ok: "share_one_parent e (provided [Some i, Some out, r])"
    and bd: "bind_dir = parent (resolve e (hd (provided [Some i, Some out, r])))"
    by (auto simp: resolve_paths_eq split: if_splits)
  from ok obtain d
    where d: "(\<lambda>p. parent (resolve e p)) ` set (provided [Some i, Some out, r]) = {d}"
    unfolding share_one_parent_def by blast
  then have ne: "provided [Some i, Some out, r] \<noteq> []" by auto
  then have "hd (provided [Some i, Some out, r]) \<in> set (provided [Some i, Some out, r])"
    by simp
  with d bd have "bind_dir = d" by blast
  with d have all: "\<forall>p \<in> set (provided [Some i, Some out, r]). parent (resolve e p) = bind_dir"
    by blast
  have second: "i \<noteq> [] \<and> out \<noteq> [] \<and> mkdir_ok e bind_dir
          \<longrightarrow> Run (compress_invocation e img i out r ll)
                \<in> set (snd (docker_compress e img i out r ll))
              \<and> Run (decompress_invocation e img i out r)
                \<in> set (snd (docker_decompress e img i out r))"
    using ok all by (auto simp: compress_runs decompress_runs provided3)
  have first: "(\<forall>p \<in> set (provided [Some i, Some out, r]). parent (resolve e p) = bind_dir)
              \<and> take 6 cmd = [''docker'', ''run'', ''--rm'',
                               ''-v'', path_str bind_dir @ '':/work'', img]
              \<and> ''-v'' \<notin> set (tool_args cmd)
              \<and> (img \<noteq> ''-v'' \<longrightarrow> count_list cmd ''-v'' = 1)
              \<and> take 5 (tool_args cmd)
                  = [''run'', ''-i'', ''/work/'' @ name (resolve e i),
                     ''-o'', ''/work/'' @ name (resolve e out)]
              \<and> (truthy r \<longrightarrow> suffix [''-r'', ''/work/'' @ name (resolve e (the r))] cmd)"
    if run: "Run cmd \<in> set (snd (docker_compress e img i out r ll))
          \<or> Run cmd \<in> set (snd (docker_decompress e img i out r))"
  proof -
    from run have "out \<noteq> []" by (auto simp: compress_runs decompress_runs)
    with all have o: "parent (resolve e out) = bind_dir" by (simp add: provided3)
    from run consider
        (c) "cmd = compress_invocation e img i out r ll"
      | (d) "cmd = decompress_invocation e img i out r"
      by (auto simp: compress_runs decompress_runs)
    then show ?thesis
    proof cases
      case c
      have "take 6 cmd = [''docker'', ''run'', ''--rm'', ''-v'', path_str bind_dir @ '':/work'', img]"
        unfolding c by (simp add: head_compress o)
      moreover have "''-v'' \<notin> set (tool_args cmd)"
        unfolding c by (simp add: tool_args_compress)
      moreover have "img \<noteq> ''-v'' \<longrightarrow> count_list cmd ''-v'' = 1"
        unfolding c by (auto simp: compress_invocation_def path_str_def)
      moreover have "take 5 (tool_args cmd)
                  = [''run'', ''-i'', ''/work/'' @ name (resolve e i),
                     ''-o'', ''/work/'' @ name (resolve e out)]"
        unfolding c by (simp add: tool_args_compress)
      moreover have "truthy r \<longrightarrow> suffix [''-r'', ''/work/'' @ name (resolve e (the r))] cmd"
        unfolding c by (simp add: compress_invocation_def suffix_def)
      ultimately show ?thesis using all by blast
    next
      case d
      have "take 6 cmd = [''docker'', ''run'', ''--rm'', ''-v'', path_str bind_dir @ '':/work'', img]"
        unfolding d by (simp add: head_decompress o)
      moreover have "''-v'' \<notin> set (tool_args cmd)"
        unfolding d by (simp add: tool_args_decompress)
      moreover have "img \<noteq> ''-v'' \<longrightarrow> count_list cmd ''-v'' = 1"
        unfolding d by (auto simp: decompress_invocation_def path_str_def)
      moreover have "take 5 (tool_args cmd)
                  = [''run'', ''-i'', ''/work/'' @ name (resolve e i),
                     ''-o'', ''/work/'' @ name (resolve e out)]"
        unfolding d by (simp add: tool_args_decompress)
      moreover have "truthy r \<longrightarrow> suffix [''-r'', ''/work/'' @ name (resolve e (the r))] cmd"
        unfolding d by (simp add: decompress_invocation_def suffix_def)
      ultimately show ?thesis using all by blast
    qed
  qed
  from first second show ?thesis by blast
qed

theorem bind_mount_and_work_paths_witness:
  "resolve_paths quiet_env [Some ''a/in.fastq'', Some ''a/out.mgb'', Some ''a/ref.fa'']
     = Inr ([[''home'', ''u'', ''a'', ''in.fastq''], [''home'', ''u'', ''a'', ''out.mgb''],
             [''home'', ''u'', ''a'', ''ref.fa'']],
            [''home'', ''u'', ''a''])
   \<and> Run [''docker'', ''run'', ''--rm'', ''-v'', ''/home/u/a:/work'', ''muefab/genie:latest'',
        ''run'', ''-i'', ''/work/in.fastq'', ''-o'', ''/work/out.mgb'',
        ''--qv'', ''none'', ''-f'', ''--low-latency'', ''-r'', ''/work/ref.fa'']
     \<in> set (snd (docker_compress quiet_env default_image ''a/in.fastq'' ''a/out.mgb''
                    (Some ''a/ref.fa'') True))
   \<and> default_image \<noteq> ''-v''
   \<and> take 6 [''docker'', ''run'', ''--rm'', ''-v'', ''/home/u/a:/work'', ''muefab/genie:latest'',
        ''run'', ''-i'', ''/work/in.fastq'', ''-o'', ''/work/out.mgb'',
        ''--qv'', ''none'', ''-f'', ''--low-latency'', ''-r'', ''/work/ref.fa'']
       = [''docker'', ''run'', ''--rm'', ''-v'',
          path_str [''home'', ''u'', ''a''] @ '':/work'', default_image]
   \<and> count_list [''docker'', ''run'', ''--rm'', ''-v'', ''/home/u/a:/work'', ''muefab/genie:latest'',
        ''run'', ''-i'', ''/work/in.fastq'', ''-o'', ''/work/out.mgb'',
        ''--qv'', ''none'', ''-f'', ''--low-latency'', ''-r'', ''/work/ref.fa''] ''-v'' = 1
   \<and> mkdir_ok quiet_env [''home'', ''u'', ''a'']
   \<and> Run (decompress_invocation quiet_env default_image ''a/in.fastq'' ''a/out.mgb''
             (Some ''a/ref.fa''))
     \<in> set (snd (docker_decompress quiet_env default_image ''a/in.fastq'' ''a/out.mgb''
                    (Some ''a/ref.fa'')))"
proof -
  let ?cmd = "[''docker'', ''run'', ''--rm'', ''-v'', ''/home/u/a:/work'', ''muefab/genie:latest'',
        ''run'', ''-i'', ''/work/in.fastq'', ''-o'', ''/work/out.mgb'',
        ''--qv'', ''none'', ''-f'', ''--low-latency'', ''-r'', ''/work/ref.fa'']"
  have run: "Run ?cmd \<in> set (snd (docker_compress quiet_env default_image ''a/in.fastq''
                ''a/out.mgb'' (Some ''a/ref.fa'') True))"
    by (simp add: quiet_compress_ref)
  have img: "default_image \<noteq> ''-v''" by (simp add: default_image_def)
  have mk: "mkdir_ok quiet_env [''home'', ''u'', ''a'']" by (simp add: quiet_env_def)
  have ne: "''a/in.fastq'' \<noteq> []" "''a/out.mgb'' \<noteq> []" by simp_all
  note inst = bind_mount_and_work_paths [OF quiet_resolve_ref, of ?cmd default_image True]
  from inst run img
  have 1: "take 6 ?cmd = [''docker'', ''run'', ''--rm'', ''-v'',
          path_str [''home'', ''u'', ''a''] @ '':/work'', default_image]
      \<and> count_list ?cmd ''-v'' = 1"
    by blast
  from inst mk ne
  have 2: "Run (decompress_invocation quiet_env default_image ''a/in.fastq'' ''a/out.mgb''
             (Some ''a/ref.fa''))
     \<in> set (snd (docker_decompress quiet_env default_image ''a/in.fastq'' ''a/out.mgb''
                    (Some ''a/ref.fa'')))"
    by blast
  from run img mk 1 2 quiet_resolve_ref show ?thesis by blast
qed

section \<open>Defaults\<close>

text \<open>
  Claim C9. A call of the public \<^verbatim>\<open>compress\<close> or \<^verbatim>\<open>decompress\<close> that leaves the mode out
  selects the containerized backend: the default mode makes the selector return the
  Docker runner with its default image, and the call is the call with mode \<^verbatim>\<open>docker\<close>,
  that is, the runner's method on the same arguments.
\<close>

theorem default_mode_is_docker:
  "get_runner DEFAULT_MODE = Inr (DockerGenieRunner default_image)
   \<and> compress e i out r None ll = compress e i out r (Some ''docker'') ll
   \<and> compress e i out r None ll
       = docker_compress e default_image i out r (case ll of None \<Rightarrow> False | Some b \<Rightarrow> b)
   \<and> decompress e i out r None = decompress e i out r (Some ''docker'')
   \<and> decompress e i out r None = docker_decompress e default_image i out r"
  by (simp add: compress_def decompress_def get_runner_def DEFAULT_MODE_def)

theorem default_mode_is_docker_witness:
  "compress quiet_env ''a/in.fastq'' ''a/out.mgb'' None None None =
     (Inr ''done'',
      [Mkdir [''home'', ''u'', ''a''],
       Run [''docker'', ''run'', ''--rm'', ''-v'', ''/home/u/a:/work'', ''muefab/genie:latest'',
            ''run'', ''-i'', ''/work/in.fastq'', ''-o'', ''/work/out.mgb'',
            ''--qv'', ''none'', ''-f''],
       Print ''[Genie Docker] Output: done''])"
proof -
  have "compress quiet_env ''a/in.fastq'' ''a/out.mgb'' None None None
          = docker_compress quiet_env default_image ''a/in.fastq'' ''a/out.mgb'' None
              (case None of None \<Rightarrow> False | Some b \<Rightarrow> b)"
    using default_mode_is_docker [of quiet_env "''a/in.fastq''" "''a/out.mgb''" None None]
    by (elim conjE)
  then show ?thesis by (simp add: quiet_compress)
qed

text \<open>
  Claim C10. For the containerized runner an empty reference string is no reference:
  the path check, \<^verbatim>\<open>compress\<close> and \<^verbatim>\<open>decompress\<close> give the same result and the same trace
  for \<^verbatim>\<open>reference=""\<close> as for \<^verbatim>\<open>reference=None\<close>, whatever the input and output, and the
  constructed command passes no \<^verbatim>\<open>-r\<close> to the tool.
\<close>

theorem empty_reference_is_none:
  "resolve_paths e [Some i, Some out, Some []] = resolve_paths e [Some i, Some out, None]
   \<and> docker_compress e img i out (Some []) ll = docker_compress e img i out None ll
   \<and> docker_decompress e img i out (Some []) = docker_decompress e img i out None
   \<and> (\<forall>cmd. Run cmd \<in> set (snd (docker_compress e img i out (Some []) ll))
              \<or> Run cmd \<in> set (snd (docker_decompress e img i out (Some [])))
          \<longrightarrow> ''-r'' \<notin> set (tool_args cmd))"
proof -
  have p: "provided [Some i, Some out, Some []] = provided [Some i, Some out, None]"
    by (simp add: provided_def)
  have c: "compress_invocation e img i out (Some []) ll = compress_invocation e img i out None ll"
    by (simp add: compress_invocation_def)
  have d: "decompress_invocation e img i out (Some []) = decompress_invocation e img i out None"
    by (simp add: decompress_invocation_def)
  have "''-r'' \<notin> set (tool_args (compress_invocation e img i out (Some []) ll))"
    by (simp add: compress_invocation_def tool_args_def)
  moreover have "''-r'' \<notin> set (tool_args (decompress_invocation e img i out (Some [])))"
    by (simp add: decompress_invocation_def tool_args_def)
  ultimately have flag:
    "\<forall>cmd. Run cmd \<in> set (snd (docker_compress e img i out (Some []) ll))
              \<or> Run cmd \<in> set (snd (docker_decompress e img i out (Some [])))
          \<longrightarrow> ''-r'' \<notin> set (tool_args cmd)"
    by (auto simp: compress_runs decompress_runs)
  have "resolve_paths e [Some i, Some out, Some []] = resolve_paths e [Some i, Some out, None]"
    by (simp add: resolve_paths_eq p)
  moreover have "docker_compress e img i out (Some []) ll = docker_compress e img i out None ll"
    by (simp add: docker_compress_eq p c)
  moreover have "docker_decompress e img i out (Some []) = docker_decompress e img i out None"
    by (simp add: docker_decompress_eq p d)
  ultimately show ?thesis using flag by blast
qed

theorem empty_reference_is_none_witness:
  "docker_compress quiet_env default_image ''a/in.fastq'' ''a/out.mgb'' (Some []) False =
     (Inr ''done'',
      [Mkdir [''home'', ''u'', ''a''],
       Run [''docker'', ''run'', ''--rm'', ''-v'', ''/home/u/a:/work'', ''muefab/genie:latest'',
            ''run'', ''-i'', ''/work/in.fastq'', ''-o'', ''/work/out.mgb'',
            ''--qv'', ''none'', ''-f''],
       Print ''[Genie Docker] Output: done''])
   \<and> ''-r'' \<notin> set (tool_args
         [''docker'', ''run'', ''--rm'', ''-v'', ''/home/u/a:/work'', ''muefab/genie:latest'',
          ''run'', ''-i'', ''/work/in.fastq'', ''-o'', ''/work/out.mgb'',
          ''--qv'', ''none'', ''-f''])"
proof -
  let ?cmd = "[''docker'', ''run'', ''--rm'', ''-v'', ''/home/u/a:/work'', ''muefab/genie:latest'',
          ''run'', ''-i'', ''/work/in.fastq'', ''-o'', ''/work/out.mgb'',
          ''--qv'', ''none'', ''-f'']"
  note inst = empty_reference_is_none
               [of quiet_env "''a/in.fastq''" "''a/out.mgb''" default_image False]
  from inst have eq: "docker_compress quiet_env default_image ''a/in.fastq'' ''a/out.mgb''
                       (Some []) False
                     = docker_compress quiet_env default_image ''a/in.fastq'' ''a/out.mgb''
                         None False"
    by (elim conjE)
  then have run: "Run ?cmd \<in> set (snd (docker_compress quiet_env default_image ''a/in.fastq''
                                     ''a/out.mgb'' (Some []) False))"
    by (simp add: quiet_compress)
  from inst run have "''-r'' \<notin> set (tool_args ?cmd)" by blast
  with eq show ?thesis by (simp add: quiet_compress)
qed

end
